theory Spec2Isabelle
  imports Complex_Main "HOL-Library.AList"
begin

section \<open>JSON values as JavaScript sees them\<close>

text \<open>
  A number produced by \<open>JSON.parse\<close> is a double: a rational, or an infinity when the
  literal overflows. Only the test against zero matters to the handler.
\<close>

datatype number = Finite rat | PlusInfinity | MinusInfinity

datatype json =
    JNull
  | JBool bool
  | JNum number
  | JStr string
  | JArr "json list"
  | JObj "(string \<times> json) list"

text \<open>
  An object lists its properties; a property is read with \<open>map_of\<close>, so an entry hides any
  later entry with the same key.
\<close>

text \<open>A JavaScript value read out of parsed JSON: \<open>None\<close> is \<open>undefined\<close>.\<close>

type_synonym jsval = "json option"

text \<open>JavaScript's ToBoolean, which \<open>!x\<close> and \<open>!!x\<close> apply.\<close>

fun truthy :: "jsval \<Rightarrow> bool" where
  "truthy None = False"
| "truthy (Some JNull) = False"
| "truthy (Some (JBool b)) = b"
| "truthy (Some (JNum (Finite r))) = (r \<noteq> 0)"
| "truthy (Some (JNum PlusInfinity)) = True"
| "truthy (Some (JNum MinusInfinity)) = True"
| "truthy (Some (JStr s)) = (s \<noteq> [])"
| "truthy (Some (JArr xs)) = True"
| "truthy (Some (JObj fs)) = True"

text \<open>
  \<open>!PAYPAL_CLIENT_ID\<close> on an environment variable: unset (\<open>undefined\<close>) and the empty
  string are both falsy.
\<close>

fun truthy_env :: "string option \<Rightarrow> bool" where
  "truthy_env None = False"
| "truthy_env (Some v) = (v \<noteq> [])"

text \<open>
  The JSON value that the text \<open>JSON.stringify(v)\<close> denotes, for \<open>v\<close> a parsed JSON value:
  an infinity is written as \<open>null\<close>, and an object is written with the properties that can
  be read from it, each key once.
\<close>

fun serialised :: "json \<Rightarrow> json" where
  "serialised (JNum PlusInfinity) = JNull"
| "serialised (JNum MinusInfinity) = JNull"
| "serialised (JArr xs) = JArr (map serialised xs)"
| "serialised (JObj fs) = JObj (AList.clearjunk (map (\<lambda>(k, v). (k, serialised v)) fs))"
| "serialised v = v"

fun is_object :: "json \<Rightarrow> bool" where
  "is_object (JObj fs) = True"
| "is_object v = False"

text \<open>A value that holds no infinity and lists no key of an object twice.\<close>

fun plain :: "json \<Rightarrow> bool" where
  "plain (JNum PlusInfinity) = False"
| "plain (JNum MinusInfinity) = False"
| "plain (JArr xs) = (\<forall>x \<in> set xs. plain x)"
| "plain (JObj fs) = (distinct (map fst fs) \<and> (\<forall>(k, v) \<in> set fs. plain v))"
| "plain v = True"

text \<open>
  Whether ToString succeeds on a parsed JSON value. An object with a property of its own
  named \<open>toString\<close> has no callable \<open>toString\<close> (a parsed property is never a function) and
  its inherited \<open>valueOf\<close> returns the object itself, so the conversion throws a TypeError.
  An array joins the conversions of its elements, \<open>null\<close> counting as the empty string.
\<close>

fun interpolable :: "json \<Rightarrow> bool" where
  "interpolable (JObj fs) = (map_of fs ''toString'' = None)"
| "interpolable (JArr xs) = (\<forall>x \<in> set xs. x = JNull \<or> interpolable x)"
| "interpolable v = True"

section \<open>Thrown values\<close>

text \<open>
  What a \<open>throw\<close> or a rejected promise carries. The three error classes are all
  \<open>instanceof Error\<close>; \<open>NonError\<close> stands for any other thrown value.
\<close>

datatype thrown = Error string | TypeError string | SyntaxError string | NonError

fun instanceof_Error :: "thrown \<Rightarrow> bool" where
  "instanceof_Error NonError = False"
| "instanceof_Error _ = True"

fun message :: "thrown \<Rightarrow> string" where
  "message (Error m) = m"
| "message (TypeError m) = m"
| "message (SyntaxError m) = m"
| "message NonError = []"

section \<open>The outside world\<close>

datatype header_value =
    Plain string
  | Basic string      \<comment> \<open>\<open>Basic \<close> followed by the base64 encoding of the given text\<close>
  | Bearer jsval      \<comment> \<open>\<open>Bearer \<close> followed by the interpolation of the value\<close>

datatype payload =
    Form string       \<comment> \<open>the body text as written\<close>
  | Stringified json  \<comment> \<open>\<open>JSON.stringify\<close> of the value\<close>

record http_request =
  url :: string
  http_method :: string
  headers :: "(string \<times> header_value) list"
  body :: payload

text \<open>
  An upstream response: the \<open>ok\<close> flag and what \<open>response.text()\<close> yields (reading the body
  can itself reject).
\<close>

record response =
  ok :: bool
  text_of :: "thrown + string"

datatype fetch_result = Rejects thrown | Resolves response

datatype log_arg = LogStr string | LogErr thrown | LogVal jsval

text \<open>
  Everything the module reads from outside: \<open>process.env\<close>, the network (the reply may
  depend on every call made so far), \<open>JSON.parse\<close>, the wording the runtime gives the
  TypeErrors of reading a property of \<open>null\<close>, of destructuring \<open>null\<close> and of
  converting an object that has no primitive value, and the text the runtime prints for a
  value that is not a string.
\<close>

record world =
  process_env :: "string \<rightharpoonup> string"
  net :: "http_request list \<Rightarrow> http_request \<Rightarrow> fetch_result"
  JSON_parse :: "string \<Rightarrow> thrown + json"
  null_property_message :: "string \<Rightarrow> string"
  null_destructure_message :: string
  to_primitive_message :: string
  String_of :: "json \<Rightarrow> string"

text \<open>The effects of the module: outbound calls in order, and console output.\<close>

datatype level = LOG | ERROR

record effects =
  calls :: "http_request list"
  console :: "(level \<times> log_arg list) list"

definition fetch :: "world \<Rightarrow> http_request \<Rightarrow> effects \<Rightarrow> fetch_result \<times> effects" where
  "fetch w rq s = (net w (calls s) rq, s\<lparr>calls := calls s @ [rq]\<rparr>)"

definition console_error :: "log_arg list \<Rightarrow> effects \<Rightarrow> effects" where
  "console_error args s = s\<lparr>console := console s @ [(ERROR, args)]\<rparr>"

definition console_log :: "log_arg list \<Rightarrow> effects \<Rightarrow> effects" where
  "console_log args s = s\<lparr>console := console s @ [(LOG, args)]\<rparr>"

text \<open>\<open>response.json()\<close>: read the body, then parse it.\<close>

definition response_json :: "world \<Rightarrow> response \<Rightarrow> thrown + json" where
  "response_json w r = (case text_of r of Inl e \<Rightarrow> Inl e | Inr t \<Rightarrow> JSON_parse w t)"

text \<open>
  Reading a named property \<open>v.k\<close> of a parsed JSON value other than \<open>null\<close>, for a key
  that is no built-in property of arrays or strings: an object yields its own property or
  \<open>undefined\<close>, every other value yields \<open>undefined\<close>.
\<close>

fun own_property :: "json \<Rightarrow> string \<Rightarrow> jsval" where
  "own_property (JObj fs) k = map_of fs k"
| "own_property _ k = None"

text \<open>\<open>v.k\<close> in general: reading a property of \<open>null\<close> throws a TypeError.\<close>

definition get_property :: "world \<Rightarrow> json \<Rightarrow> string \<Rightarrow> thrown + jsval" where
  "get_property w v k =
     (if v = JNull then Inl (TypeError (null_property_message w k))
      else Inr (own_property v k))"

text \<open>An environment variable inside a template literal: \<open>undefined\<close> prints as such.\<close>

fun interpolate_env :: "string option \<Rightarrow> string" where
  "interpolate_env None = ''undefined''"
| "interpolate_env (Some v) = v"

text \<open>
  An object literal whose property values may be \<open>undefined\<close>, as \<open>JSON.stringify\<close>
  writes it: properties holding \<open>undefined\<close> are left out.
\<close>

fun object_literal :: "(string \<times> jsval) list \<Rightarrow> json" where
  "object_literal ps = JObj (List.map_filter (\<lambda>(k, v). map_option (Pair k) v) ps)"

text \<open>\<open>a || b\<close>: the left operand when it is truthy, the right one otherwise.\<close>

definition js_or :: "jsval \<Rightarrow> jsval \<Rightarrow> jsval" where
  "js_or a b = (if truthy a then a else b)"

text \<open>A value inside a template literal: its text, or the TypeError of the conversion.\<close>

fun interpolate :: "world \<Rightarrow> jsval \<Rightarrow> thrown + string" where
  "interpolate w None = Inr ''undefined''"
| "interpolate w (Some (JStr t)) = Inr t"
| "interpolate w (Some v) =
     (if interpolable v then Inr (String_of w v)
      else Inl (TypeError (to_primitive_message w)))"

text \<open>
  \<open>v?.[0]\<close>: \<open>undefined\<close> when \<open>v\<close> is \<open>undefined\<close> or \<open>null\<close>; otherwise the first
  element of an array, the first character of a string, the property \<open>"0"\<close> of an object.
\<close>

fun optional_first :: "jsval \<Rightarrow> jsval" where
  "optional_first (Some (JArr (x # xs))) = Some x"
| "optional_first (Some (JStr (c # cs))) = Some (JStr [c])"
| "optional_first (Some (JObj fs)) = map_of fs ''0''"
| "optional_first _ = None"

text \<open>\<open>v?.k\<close> for a named key: \<open>undefined\<close> when \<open>v\<close> is \<open>undefined\<close> or \<open>null\<close>.\<close>

fun optional_property :: "jsval \<Rightarrow> string \<Rightarrow> jsval" where
  "optional_property None k = None"
| "optional_property (Some v) k = own_property v k"

text \<open>\<open>x.slice(-4)\<close>: the last four characters, or all of a shorter string.\<close>

definition slice_last4 :: "string \<Rightarrow> string" where
  "slice_last4 x = drop (length x - 4) x"

section \<open>The route: \<open>src/app/api/paypal/create-order/route.ts\<close>\<close>

definition PAYPAL_CLIENT_ID :: "world \<Rightarrow> string option" where
  "PAYPAL_CLIENT_ID w = process_env w ''NEXT_PUBLIC_PAYPAL_CLIENT_ID''"

definition PAYPAL_CLIENT_SECRET :: "world \<Rightarrow> string option" where
  "PAYPAL_CLIENT_SECRET w = process_env w ''PAYPAL_CLIENT_SECRET''"

definition base :: string where
  "base = ''https://api-m.sandbox.paypal.com''"

text \<open>The request \<open>getPayPalAccessToken\<close> sends.\<close>

definition token_request :: "world \<Rightarrow> http_request" where
  "token_request w =
     (let auth = Basic (interpolate_env (PAYPAL_CLIENT_ID w) @ '':'' @
                        interpolate_env (PAYPAL_CLIENT_SECRET w))
      in \<lparr> url = base @ ''/v1/oauth2/token'',
           http_method = ''POST'',
           headers = [(''Authorization'', auth)],
           body = Form ''grant_type=client_credentials'' \<rparr>)"

definition getPayPalAccessToken :: "world \<Rightarrow> effects \<Rightarrow> (thrown + jsval) \<times> effects" where
  "getPayPalAccessToken w s =
     (if \<not> truthy_env (PAYPAL_CLIENT_ID w) \<or> \<not> truthy_env (PAYPAL_CLIENT_SECRET w)
      then (Inl (Error ''MISSING_PAYPAL_API_CREDENTIALS''), s)
      else
        (case fetch w (token_request w) s of
           (Rejects e, s1) \<Rightarrow> (Inl e, s1)
         | (Resolves r, s1) \<Rightarrow>
             if \<not> ok r then
               (case text_of r of
                  Inl e \<Rightarrow> (Inl e, s1)
                | Inr errorData \<Rightarrow>
                    (Inl (Error (''Failed to get access token: '' @ errorData)), s1))
             else
               (case response_json w r of
                  Inl e \<Rightarrow> (Inl e, s1)
                | Inr data \<Rightarrow> (get_property w data ''access_token'', s1))))"

text \<open>
  The body and the request \<open>createPayPalOrder\<close> sends. Writing the access token into the
  \<open>Authorization\<close> header is an interpolation; when it throws, no request is sent.
\<close>

definition order_body :: "jsval \<Rightarrow> jsval \<Rightarrow> bool \<Rightarrow> json" where
  "order_body amount description requiresShipping =
     object_literal
       [(''intent'', Some (JStr ''CAPTURE'')),
        (''purchase_units'', Some (JArr
           [object_literal
              [(''amount'', Some (object_literal
                  [(''currency_code'', Some (JStr ''USD'')),
                   (''value'', amount)])),
               (''description'', description)]])),
        (''application_context'', Some (object_literal
           [(''shipping_preference'',
             Some (JStr (if requiresShipping then ''GET_FROM_FILE'' else ''NO_SHIPPING'')))]))]"

definition order_request :: "jsval \<Rightarrow> jsval \<Rightarrow> jsval \<Rightarrow> bool \<Rightarrow> http_request" where
  "order_request accessToken amount description requiresShipping =
     \<lparr> url = base @ ''/v2/checkout/orders'',
       http_method = ''POST'',
       headers = [(''Content-Type'', Plain ''application/json''),
                  (''Authorization'', Bearer accessToken)],
       body = Stringified (order_body amount description requiresShipping) \<rparr>"

definition createPayPalOrder ::
    "world \<Rightarrow> jsval \<Rightarrow> jsval \<Rightarrow> bool \<Rightarrow> effects \<Rightarrow> (thrown + json) \<times> effects" where
  "createPayPalOrder w amount description requiresShipping s =
     (case getPayPalAccessToken w s of
        (Inl e, s1) \<Rightarrow> (Inl e, s1)
      | (Inr accessToken, s1) \<Rightarrow>
          (case interpolate w accessToken of
             Inl e \<Rightarrow> (Inl e, s1)
           | Inr bearer \<Rightarrow>
               (case fetch w (order_request accessToken amount description requiresShipping) s1 of
                  (Rejects e, s2) \<Rightarrow> (Inl e, s2)
                | (Resolves r, s2) \<Rightarrow>
                    if \<not> ok r then
                      (case text_of r of
                         Inl e \<Rightarrow> (Inl e, s2)
                       | Inr errorData \<Rightarrow>
                           (Inl (Error (''Failed to create order: '' @ errorData)), s2))
                    else (response_json w r, s2))))"

text \<open>
  What \<open>NextResponse.json(body, { status })\<close> hands back to the caller: the status and the
  body as \<open>JSON.stringify\<close> writes it.
\<close>

record http_response =
  status :: nat
  response_body :: json

definition NextResponse_json :: "json \<Rightarrow> nat \<Rightarrow> http_response" where
  "NextResponse_json b st = \<lparr> status = st, response_body = serialised b \<rparr>"

text \<open>An incoming request: what reading its body text yields.\<close>

record request =
  request_text :: "thrown + string"

definition request_json :: "world \<Rightarrow> request \<Rightarrow> thrown + json" where
  "request_json w rq = (case request_text rq of Inl e \<Rightarrow> Inl e | Inr t \<Rightarrow> JSON_parse w t)"

text \<open>
  The destructuring \<open>const { amount, description, requiresShipping } = ...\<close>: it throws
  a TypeError on \<open>null\<close> and reads the three properties of anything else.
\<close>

definition destructure :: "world \<Rightarrow> json \<Rightarrow> thrown + (jsval \<times> jsval \<times> jsval)" where
  "destructure w v =
     (if v = JNull then Inl (TypeError (null_destructure_message w))
      else Inr (own_property v ''amount'', own_property v ''description'',
                own_property v ''requiresShipping''))"

text \<open>The \<open>catch\<close> block of \<open>POST\<close>.\<close>

definition POST_catch :: "thrown \<Rightarrow> effects \<Rightarrow> http_response \<times> effects" where
  "POST_catch error s =
     (let s1 = console_error [LogStr ''Failed to create PayPal order:'', LogErr error] s;
          msg = (if instanceof_Error error then message error
                 else ''An unknown error occurred'')
      in (NextResponse_json (JObj [(''error'', JStr msg)]) 500, s1))"

definition POST :: "world \<Rightarrow> request \<Rightarrow> effects \<Rightarrow> http_response \<times> effects" where
  "POST w rq s =
     (case request_json w rq of
        Inl e \<Rightarrow> POST_catch e s
      | Inr parsed \<Rightarrow>
          (case destructure w parsed of
             Inl e \<Rightarrow> POST_catch e s
           | Inr (amount, description, requiresShipping) \<Rightarrow>
               if \<not> truthy amount \<or> \<not> truthy description then
                 (NextResponse_json
                    (JObj [(''error'', JStr ''Missing amount or description in request body'')])
                    400, s)
               else
                 (case createPayPalOrder w amount description (truthy requiresShipping) s of
                    (Inl e, s1) \<Rightarrow> POST_catch e s1
                  | (Inr order, s1) \<Rightarrow> (NextResponse_json order 200, s1))))"

section \<open>The copy of the route in \<open>src/unnamed/part_000\<close>\<close>

text \<open>
  This copy reads the same variables and uses the same base URL as \<open>route.ts\<close>, logs
  what the processor said, and throws fixed messages. Its definitions carry the suffix
  \<open>_part000\<close>.
\<close>

definition token_request_part000 :: "world \<Rightarrow> http_request" where
  "token_request_part000 w =
     (let auth = Basic (interpolate_env (PAYPAL_CLIENT_ID w) @ '':'' @
                        interpolate_env (PAYPAL_CLIENT_SECRET w))
      in \<lparr> url = base @ ''/v1/oauth2/token'',
           http_method = ''POST'',
           headers = [(''Content-Type'', Plain ''application/x-www-form-urlencoded''),
                      (''Authorization'', auth)],
           body = Form ''grant_type=client_credentials'' \<rparr>)"

text \<open>
  The \<open>try\<close> block of the token failure path together with its empty \<open>catch\<close>: whatever is
  thrown inside, the error for \<open>invalid_client\<close> included, is swallowed; only the console
  keeps a trace.
\<close>

definition token_error_try_part000 :: "world \<Rightarrow> string \<Rightarrow> effects \<Rightarrow> effects" where
  "token_error_try_part000 w errorBody s =
     (case JSON_parse w errorBody of
        Inl e \<Rightarrow> s
      | Inr errorJson \<Rightarrow>
          (case get_property w errorJson ''error'' of
             Inl e \<Rightarrow> s
           | Inr err \<Rightarrow>
               if err = Some (JStr ''invalid_client'') then
                 console_error [LogStr ''PayPal authentication failed: 'invalid_client'. This is almost always due to an incorrect PAYPAL_CLIENT_ID or PAYPAL_CLIENT_SECRET in your environment variables.''] s
               else s))"

definition getPayPalAccessToken_part000 ::
    "world \<Rightarrow> effects \<Rightarrow> (thrown + jsval) \<times> effects" where
  "getPayPalAccessToken_part000 w s =
     (if \<not> truthy_env (PAYPAL_CLIENT_ID w) \<or> \<not> truthy_env (PAYPAL_CLIENT_SECRET w)
      then
        (Inl (Error ''PayPal API credentials are not configured on the server.''),
         console_error [LogStr ''MISSING_PAYPAL_API_CREDENTIALS: Make sure PAYPAL_CLIENT_SECRET and NEXT_PUBLIC_PAYPAL_CLIENT_ID are set in your environment variables.''] s)
      else
        (let s1 = console_log
                    [LogStr (''Attempting PayPal auth with Client ID ending in ...'' @
                             slice_last4 (interpolate_env (PAYPAL_CLIENT_ID w)))] s
         in case fetch w (token_request_part000 w) s1 of
              (Rejects e, s2) \<Rightarrow> (Inl e, s2)
            | (Resolves r, s2) \<Rightarrow>
                if \<not> ok r then
                  (case text_of r of
                     Inl e \<Rightarrow> (Inl e, s2)
                   | Inr errorBody \<Rightarrow>
                       (let s3 = console_error
                                   [LogStr ''PayPal API Error Response:'', LogStr errorBody] s2;
                            s4 = token_error_try_part000 w errorBody s3
                        in (Inl (Error ''Failed to get access token from PayPal. Check server logs for details.''),
                            s4)))
                else
                  (case response_json w r of
                     Inl e \<Rightarrow> (Inl e, s2)
                   | Inr data \<Rightarrow>
                       (get_property w data ''access_token'',
                        console_log [LogStr ''Successfully obtained PayPal access token.''] s2))))"

definition createPayPalOrder_part000 ::
    "world \<Rightarrow> jsval \<Rightarrow> jsval \<Rightarrow> bool \<Rightarrow> effects \<Rightarrow> (thrown + json) \<times> effects" where
  "createPayPalOrder_part000 w amount description requiresShipping s =
     (case getPayPalAccessToken_part000 w s of
        (Inl e, s1) \<Rightarrow> (Inl e, s1)
      | (Inr accessToken, s1) \<Rightarrow>
          (case interpolate w accessToken of
             Inl e \<Rightarrow> (Inl e, s1)
           | Inr bearer \<Rightarrow>
               (case fetch w (order_request accessToken amount description requiresShipping) s1 of
                  (Rejects e, s2) \<Rightarrow> (Inl e, s2)
                | (Resolves r, s2) \<Rightarrow>
                    if \<not> ok r then
                      (case text_of r of
                         Inl e \<Rightarrow> (Inl e, s2)
                       | Inr errorData \<Rightarrow>
                           (Inl (Error ''Failed to create order with PayPal.''),
                            console_error
                              [LogStr ''Failed to create PayPal order:'', LogStr errorData] s2))
                    else (response_json w r, s2))))"

definition POST_catch_part000 :: "thrown \<Rightarrow> effects \<Rightarrow> http_response \<times> effects" where
  "POST_catch_part000 error s =
     (let msg = (if instanceof_Error error then message error
                 else ''An unknown error occurred'')
      in (NextResponse_json (JObj [(''error'', JStr msg)]) 500, s))"

definition POST_part000 :: "world \<Rightarrow> request \<Rightarrow> effects \<Rightarrow> http_response \<times> effects" where
  "POST_part000 w rq s =
     (case request_json w rq of
        Inl e \<Rightarrow> POST_catch_part000 e s
      | Inr parsed \<Rightarrow>
          (case destructure w parsed of
             Inl e \<Rightarrow> POST_catch_part000 e s
           | Inr (amount, description, requiresShipping) \<Rightarrow>
               if \<not> truthy amount \<or> \<not> truthy description then
                 (NextResponse_json
                    (JObj [(''error'', JStr ''Missing amount or description in request body'')])
                    400, s)
               else
                 (case createPayPalOrder_part000 w amount description
                         (truthy requiresShipping) s of
                    (Inl e, s1) \<Rightarrow> POST_catch_part000 e s1
                  | (Inr order, s1) \<Rightarrow> (NextResponse_json order 200, s1))))"

section \<open>The copy of the route with an operating mode\<close>

text \<open>
  Another copy of the route is carried in \<open>src/components/header.tsx\<close> (lines 160 to 293).
  It reads its credentials from other variables and chooses its base URL from
  \<open>PAYPAL_MODE\<close>. Its definitions carry the suffix \<open>_mode\<close>.
\<close>

definition PAYPAL_CLIENT_ID_mode :: "world \<Rightarrow> string option" where
  "PAYPAL_CLIENT_ID_mode w = process_env w ''PAYPAL_CLIENT_ID''"

definition PAYPAL_CLIENT_SECRET_mode :: "world \<Rightarrow> string option" where
  "PAYPAL_CLIENT_SECRET_mode w = process_env w ''PAYPAL_SECRET''"

definition base_mode :: "world \<Rightarrow> string" where
  "base_mode w =
     (if process_env w ''PAYPAL_MODE'' = Some ''live''
      then ''https://api-m.paypal.com''
      else ''https://api-m.sandbox.paypal.com'')"

text \<open>\<open>process.env.X || d\<close> inside a template literal.\<close>

definition env_or :: "string option \<Rightarrow> string \<Rightarrow> string" where
  "env_or v d = (if truthy_env v then interpolate_env v else d)"

definition token_request_mode :: "world \<Rightarrow> http_request" where
  "token_request_mode w =
     (let auth = Basic (interpolate_env (PAYPAL_CLIENT_ID_mode w) @ '':'' @
                        interpolate_env (PAYPAL_CLIENT_SECRET_mode w))
      in \<lparr> url = base_mode w @ ''/v1/oauth2/token'',
           http_method = ''POST'',
           headers = [(''Content-Type'', Plain ''application/x-www-form-urlencoded''),
                      (''Authorization'', auth)],
           body = Form ''grant_type=client_credentials'' \<rparr>)"

text \<open>
  The \<open>try\<close> block of the token failure path. Every way through it ends in a throw: of
  \<open>JSON.parse\<close>, of reading \<open>errorJson.error\<close>, of the interpolation, or of one of its own
  two errors.
\<close>

definition token_error_try :: "world \<Rightarrow> string \<Rightarrow> effects \<Rightarrow> thrown \<times> effects" where
  "token_error_try w errorBody s =
     (case JSON_parse w errorBody of
        Inl e \<Rightarrow> (e, s)
      | Inr errorJson \<Rightarrow>
          (case get_property w errorJson ''error'' of
             Inl e \<Rightarrow> (e, s)
           | Inr err \<Rightarrow>
               if err = Some (JStr ''invalid_client'') then
                 (Error ''PayPal client authentication failed. Please check server configuration and credentials on Netlify.'',
                  console_error [LogStr ''PayPal authentication failed: 'invalid_client'. This is almost always due to an incorrect PAYPAL_CLIENT_ID or PAYPAL_SECRET in your environment variables.''] s)
               else
                 (case interpolate w
                         (js_or (js_or (own_property errorJson ''error_description'') err)
                            (Some (JStr ''Unknown PayPal error''))) of
                    Inl e \<Rightarrow> (e, s)
                  | Inr detail \<Rightarrow>
                      (Error (''Failed to get access token from PayPal: '' @ detail @
                              ''. Check server logs for details.''),
                       s))))"

definition getPayPalAccessToken_mode :: "world \<Rightarrow> effects \<Rightarrow> (thrown + jsval) \<times> effects" where
  "getPayPalAccessToken_mode w s =
     (if \<not> truthy_env (PAYPAL_CLIENT_ID_mode w) \<or> \<not> truthy_env (PAYPAL_CLIENT_SECRET_mode w)
      then
        (let errorMessage = ''PayPal API credentials (PAYPAL_CLIENT_ID or PAYPAL_SECRET) are not configured on the server. Please check your Netlify environment variables.'';
             s1 = console_error [LogStr ''MISSING_PAYPAL_API_CREDENTIALS:'', LogStr errorMessage] s
         in (Inl (Error errorMessage), s1))
      else
        (let s1 = console_log
                    [LogStr (''Attempting PayPal auth with Client ID ending in ...'' @
                             slice_last4 (interpolate_env (PAYPAL_CLIENT_ID_mode w)) @
                             '' for '' @ env_or (process_env w ''PAYPAL_MODE'') ''sandbox'' @
                             '' environment.'')] s
         in case fetch w (token_request_mode w) s1 of
              (Rejects e, s2) \<Rightarrow> (Inl e, s2)
            | (Resolves r, s2) \<Rightarrow>
                if \<not> ok r then
                  (case text_of r of
                     Inl e \<Rightarrow> (Inl e, s2)
                   | Inr errorBody \<Rightarrow>
                       (let s3 = console_error
                                   [LogStr ''PayPal Access Token API Error Response:'',
                                    LogStr errorBody] s2
                        in case token_error_try w errorBody s3 of
                             (e, s4) \<Rightarrow>
                               (Inl (Error (''Failed to get access token from PayPal. Raw error: '' @
                                            errorBody @ ''. Check server logs for details.'')),
                                console_error
                                  [LogStr ''Failed to parse PayPal error response as JSON:'',
                                   LogErr e] s4)))
                else
                  (case response_json w r of
                     Inl e \<Rightarrow> (Inl e, s2)
                   | Inr data \<Rightarrow>
                       (get_property w data ''access_token'',
                        console_log [LogStr ''Successfully obtained PayPal access token.''] s2))))"

definition order_request_mode ::
    "world \<Rightarrow> jsval \<Rightarrow> jsval \<Rightarrow> jsval \<Rightarrow> bool \<Rightarrow> http_request" where
  "order_request_mode w accessToken amount description requiresShipping =
     \<lparr> url = base_mode w @ ''/v2/checkout/orders'',
       http_method = ''POST'',
       headers = [(''Content-Type'', Plain ''application/json''),
                  (''Authorization'', Bearer accessToken)],
       body = Stringified (order_body amount description requiresShipping) \<rparr>"

text \<open>The \<open>try\<close> block of the order failure path; it too always ends in a throw.\<close>

definition order_error_try :: "world \<Rightarrow> string \<Rightarrow> thrown" where
  "order_error_try w errorData =
     (case JSON_parse w errorData of
        Inl e \<Rightarrow> e
      | Inr errorJson \<Rightarrow>
          (case get_property w errorJson ''details'' of
             Inl e \<Rightarrow> e
           | Inr details \<Rightarrow>
               (case interpolate w
                       (js_or (js_or (optional_property (optional_first details) ''description'')
                                 (own_property errorJson ''message''))
                          (Some (JStr ''Unknown error''))) of
                  Inl e \<Rightarrow> e
                | Inr detail \<Rightarrow>
                    Error (''Failed to create order with PayPal: '' @ detail @ ''.''))))"

definition createPayPalOrder_mode ::
    "world \<Rightarrow> jsval \<Rightarrow> jsval \<Rightarrow> bool \<Rightarrow> effects \<Rightarrow> (thrown + json) \<times> effects" where
  "createPayPalOrder_mode w amount description requiresShipping s =
     (case getPayPalAccessToken_mode w s of
        (Inl e, s1) \<Rightarrow> (Inl e, s1)
      | (Inr accessToken, s1) \<Rightarrow>
          (case interpolate w accessToken of
             Inl e \<Rightarrow> (Inl e, s1)
           | Inr bearer \<Rightarrow>
               (case fetch w
                       (order_request_mode w accessToken amount description requiresShipping)
                       s1 of
                  (Rejects e, s2) \<Rightarrow> (Inl e, s2)
                | (Resolves r, s2) \<Rightarrow>
                    if \<not> ok r then
                      (case text_of r of
                         Inl e \<Rightarrow> (Inl e, s2)
                       | Inr errorData \<Rightarrow>
                           (let s3 = console_error
                                       [LogStr ''Failed to create PayPal order:'',
                                        LogStr errorData] s2;
                                e = order_error_try w errorData
                            in (Inl (Error (''Failed to create order with PayPal. Raw error: '' @
                                            errorData @ ''.'')), s3)))
                    else
                      (case response_json w r of
                         Inl e \<Rightarrow> (Inl e, s2)
                       | Inr orderData \<Rightarrow>
                           (case get_property w orderData ''id'' of
                              Inl e \<Rightarrow> (Inl e, s2)
                            | Inr orderId \<Rightarrow>
                                (Inr orderData,
                                 console_log [LogStr ''Successfully created PayPal order:'',
                                              LogVal orderId] s2))))))"

definition POST_catch_mode :: "thrown \<Rightarrow> effects \<Rightarrow> http_response \<times> effects" where
  "POST_catch_mode error s =
     (let msg = (if instanceof_Error error then message error
                 else ''An unknown error occurred during PayPal order creation.'');
          s1 = console_error [LogStr ''Error in POST /api/paypal/create-order:'', LogErr error] s
      in (NextResponse_json (JObj [(''error'', JStr msg)]) 500, s1))"

definition POST_mode :: "world \<Rightarrow> request \<Rightarrow> effects \<Rightarrow> http_response \<times> effects" where
  "POST_mode w rq s =
     (case request_json w rq of
        Inl e \<Rightarrow> POST_catch_mode e s
      | Inr parsed \<Rightarrow>
          (case destructure w parsed of
             Inl e \<Rightarrow> POST_catch_mode e s
           | Inr (amount, description, requiresShipping) \<Rightarrow>
               if \<not> truthy amount \<or> \<not> truthy description then
                 (NextResponse_json
                    (JObj [(''error'', JStr ''Missing amount or description in request body'')])
                    400, s)
               else
                 (case createPayPalOrder_mode w amount description (truthy requiresShipping) s of
                    (Inl e, s1) \<Rightarrow> POST_catch_mode e s1
                  | (Inr order, s1) \<Rightarrow> (NextResponse_json order 200, s1))))"

section \<open>Observing a run\<close>

text \<open>The calls issued between two states of the effects.\<close>

definition new_calls :: "effects \<Rightarrow> effects \<Rightarrow> http_request list" where
  "new_calls s s' = drop (length (calls s)) (calls s')"

text \<open>The shipping preference an order-creation request carries in its body.\<close>

definition shipping_preference_sent :: "http_request \<Rightarrow> jsval" where
  "shipping_preference_sent rq =
     (case body rq of
        Form t \<Rightarrow> None
      | Stringified j \<Rightarrow>
          (case own_property j ''application_context'' of
             None \<Rightarrow> None
           | Some ac \<Rightarrow> own_property ac ''shipping_preference''))"

text \<open>The route serving requests one after another.\<close>

fun serve :: "world \<Rightarrow> request list \<Rightarrow> effects \<Rightarrow> http_response list \<times> effects" where
  "serve w [] s = ([], s)"
| "serve w (rq # rqs) s =
     (case POST w rq s of
        (resp, s1) \<Rightarrow> (case serve w rqs s1 of (resps, s2) \<Rightarrow> (resp # resps, s2)))"

section \<open>Concrete worlds\<close>

text \<open>The scenario of the specification: a ten dollar order of prints, no shipping.\<close>

definition scenario_request_text :: string where
  \<open>scenario_request_text =
     ''{"amount":"10.00","description":"4x6 prints","requiresShipping":false}''\<close>

definition scenario_token_text :: string where
  \<open>scenario_token_text = ''{"access_token":"A21AAF","token_type":"Bearer"}''\<close>

definition later_token_text :: string where
  \<open>later_token_text = ''{"access_token":"A21AAG","token_type":"Bearer"}''\<close>

definition scenario_order_text :: string where
  \<open>scenario_order_text = ''{"id":"ORDER123","status":"CREATED"}''\<close>

text \<open>The second scenario: the amount is missing.\<close>

definition missing_amount_text :: string where
  \<open>missing_amount_text = ''{"description":"prints"}''\<close>

text \<open>Bodies whose amount is the number zero, and the string \<open>"0"\<close> with shipping.\<close>

definition zero_amount_text :: string where
  \<open>zero_amount_text = ''{"amount":0,"description":"prints"}''\<close>

definition string_zero_text :: string where
  \<open>string_zero_text = ''{"amount":"0","description":"prints","requiresShipping":true}''\<close>

text \<open>What the token endpoint of the processor answers to wrong credentials.\<close>

definition invalid_client_text :: string where
  \<open>invalid_client_text =
     ''{"error":"invalid_client","error_description":"Client Authentication failed"}''\<close>

text \<open>A token reply whose token is an object with a property named \<open>toString\<close>.\<close>

definition unwritable_token_text :: string where
  \<open>unwritable_token_text = ''{"access_token":{"toString":1}}''\<close>

text \<open>An order reply with a number too large for a double.\<close>

definition overflow_order_text :: string where
  \<open>overflow_order_text = ''{"id":"ORDER123","weight":1e999}''\<close>

definition scenario_parse :: "string \<Rightarrow> thrown + json" where
  "scenario_parse t =
     (if t = scenario_request_text then
        Inr (JObj [(''amount'', JStr ''10.00''), (''description'', JStr ''4x6 prints''),
                   (''requiresShipping'', JBool False)])
      else if t = scenario_token_text then
        Inr (JObj [(''access_token'', JStr ''A21AAF''), (''token_type'', JStr ''Bearer'')])
      else if t = later_token_text then
        Inr (JObj [(''access_token'', JStr ''A21AAG''), (''token_type'', JStr ''Bearer'')])
      else if t = scenario_order_text then
        Inr (JObj [(''id'', JStr ''ORDER123''), (''status'', JStr ''CREATED'')])
      else if t = missing_amount_text then
        Inr (JObj [(''description'', JStr ''prints'')])
      else if t = zero_amount_text then
        Inr (JObj [(''amount'', JNum (Finite 0)), (''description'', JStr ''prints'')])
      else if t = string_zero_text then
        Inr (JObj [(''amount'', JStr ''0''), (''description'', JStr ''prints''),
                   (''requiresShipping'', JBool True)])
      else if t = invalid_client_text then
        Inr (JObj [(''error'', JStr ''invalid_client''),
                   (''error_description'', JStr ''Client Authentication failed'')])
      else if t = unwritable_token_text then
        Inr (JObj [(''access_token'', JObj [(''toString'', JNum (Finite 1))])])
      else if t = overflow_order_text then
        Inr (JObj [(''id'', JStr ''ORDER123''), (''weight'', JNum PlusInfinity)])
      else if t = ''null'' then Inr JNull
      else Inl (SyntaxError ''Unexpected token''))"

text \<open>Credentials for both copies of the route; no operating mode is set.\<close>

definition configured_env :: "string \<rightharpoonup> string" where
  "configured_env =
     [''NEXT_PUBLIC_PAYPAL_CLIENT_ID'' \<mapsto> ''client-id'',
      ''PAYPAL_CLIENT_SECRET'' \<mapsto> ''client-secret'',
      ''PAYPAL_CLIENT_ID'' \<mapsto> ''client-id'',
      ''PAYPAL_SECRET'' \<mapsto> ''client-secret'']"

text \<open>
  A processor that grants a token (one token to the first call ever made, another one
  afterwards) and creates the order.
\<close>

definition scenario_net :: "http_request list \<Rightarrow> http_request \<Rightarrow> fetch_result" where
  "scenario_net history rq =
     (if body rq = Form ''grant_type=client_credentials''
      then Resolves \<lparr> ok = True,
                      text_of = Inr (if history = [] then scenario_token_text
                                     else later_token_text) \<rparr>
      else Resolves \<lparr> ok = True, text_of = Inr scenario_order_text \<rparr>)"

definition scenario_world :: world where
  "scenario_world =
     \<lparr> process_env = configured_env,
       net = scenario_net,
       JSON_parse = scenario_parse,
       null_property_message = (\<lambda>k. ''Cannot read properties of null''),
       null_destructure_message = ''Cannot destructure null'',
       to_primitive_message = ''Cannot convert object to primitive value'',
       String_of = (\<lambda>v. ''[object Object]'') \<rparr>"

text \<open>A processor that grants a token and answers the order call with the given body.\<close>

definition replying_world :: "string \<Rightarrow> world" where
  "replying_world orderText =
     scenario_world
       \<lparr> net := (\<lambda>history rq.
            if body rq = Form ''grant_type=client_credentials''
            then Resolves \<lparr> ok = True, text_of = Inr scenario_token_text \<rparr>
            else Resolves \<lparr> ok = True, text_of = Inr orderText \<rparr>) \<rparr>"

text \<open>A processor that answers every call with a token that cannot be written out.\<close>

definition unwritable_token_world :: world where
  "unwritable_token_world =
     scenario_world
       \<lparr> net := (\<lambda>history rq.
            Resolves \<lparr> ok = True, text_of = Inr unwritable_token_text \<rparr>) \<rparr>"

text \<open>The same world with the operating mode set to live.\<close>

definition live_world :: world where
  "live_world = scenario_world \<lparr> process_env := configured_env(''PAYPAL_MODE'' \<mapsto> ''live'') \<rparr>"

text \<open>A processor whose token endpoint refuses with the given body.\<close>

definition refusing_world :: "string \<Rightarrow> world" where
  "refusing_world errorData =
     scenario_world \<lparr> net := (\<lambda>history rq. Resolves \<lparr> ok = False, text_of = Inr errorData \<rparr>) \<rparr>"

definition unconfigured_world :: world where
  "unconfigured_world = scenario_world \<lparr> process_env := Map.empty \<rparr>"

definition scenario_request :: request where
  "scenario_request = \<lparr> request_text = Inr scenario_request_text \<rparr>"

definition missing_amount_request :: request where
  "missing_amount_request = \<lparr> request_text = Inr missing_amount_text \<rparr>"

definition zero_amount_request :: request where
  "zero_amount_request = \<lparr> request_text = Inr zero_amount_text \<rparr>"

definition string_zero_request :: request where
  "string_zero_request = \<lparr> request_text = Inr string_zero_text \<rparr>"

definition null_request :: request where
  "null_request = \<lparr> request_text = Inr ''null'' \<rparr>"

definition no_effects :: effects where
  "no_effects = \<lparr> calls = [], console = [] \<rparr>"

section \<open>How a run can go\<close>

lemmas route_defs =
  POST_def POST_catch_def createPayPalOrder_def getPayPalAccessToken_def fetch_def
  console_error_def destructure_def get_property_def NextResponse_json_def

lemmas scenario_defs =
  scenario_world_def scenario_request_def scenario_parse_def scenario_net_def
  scenario_request_text_def scenario_token_text_def scenario_order_text_def
  configured_env_def no_effects_def request_json_def response_json_def
  PAYPAL_CLIENT_ID_def PAYPAL_CLIENT_SECRET_def token_request_def order_request_def
  base_def refusing_world_def replying_world_def missing_amount_text_def overflow_order_text_def
  unwritable_token_text_def
  later_token_text_def zero_amount_text_def string_zero_text_def invalid_client_text_def
  string_zero_request_def

lemma serialised_plain: "plain v \<Longrightarrow> serialised v = v"
proof (induction v rule: serialised.induct)
  case (3 xs)
  then show ?case by (simp add: map_idI)
next
  case (4 fs)
  then have "map (\<lambda>(k, v). (k, serialised v)) fs = fs"
    by (intro map_idI) auto
  with 4 show ?case by simp
qed simp_all

lemma serialised_object: "is_object v \<Longrightarrow> is_object (serialised v)"
  by (cases v) simp_all

lemma truthy_not_null: "truthy (own_property v k) \<Longrightarrow> v \<noteq> JNull"
  by (cases v) auto

lemma new_calls_append [simp]: "calls s' = calls s @ cs \<Longrightarrow> new_calls s s' = cs"
  by (simp add: new_calls_def)

lemma new_calls_same [simp]: "new_calls s s = []"
  by (simp add: new_calls_def)

lemma POST_extends: "\<exists>cs. calls (snd (POST w rq s)) = calls s @ cs"
  by (auto simp: route_defs Let_def split: sum.splits fetch_result.splits prod.splits)


lemma getPayPalAccessToken_Inr:
  assumes "getPayPalAccessToken w s = (Inr accessToken, s1)"
  shows "s1 = s\<lparr>calls := calls s @ [token_request w]\<rparr> \<and>
         truthy_env (PAYPAL_CLIENT_ID w) \<and> truthy_env (PAYPAL_CLIENT_SECRET w) \<and>
         (\<exists>r data. net w (calls s) (token_request w) = Resolves r \<and> ok r \<and>
            response_json w r = Inr data \<and> data \<noteq> JNull \<and>
            accessToken = own_property data ''access_token'')"
  using assms
  by (auto simp: getPayPalAccessToken_def fetch_def get_property_def
        split: if_splits fetch_result.splits sum.splits)

lemma getPayPalAccessToken_Inl:
  assumes "getPayPalAccessToken w s = (Inl e, s1)"
  shows "s1 = s \<or> s1 = s\<lparr>calls := calls s @ [token_request w]\<rparr>"
  using assms
  by (auto simp: getPayPalAccessToken_def fetch_def get_property_def
        split: if_splits fetch_result.splits sum.splits)

lemma createPayPalOrder_Inr:
  assumes "createPayPalOrder w amount description requiresShipping s = (Inr order, s2)"
  shows "\<exists>accessToken r.
           s2 = s\<lparr>calls := calls s @ [token_request w,
                     order_request accessToken amount description requiresShipping]\<rparr> \<and>
           fst (getPayPalAccessToken w s) = Inr accessToken \<and>
           net w (calls s @ [token_request w])
             (order_request accessToken amount description requiresShipping) = Resolves r \<and>
           ok r \<and> response_json w r = Inr order"
proof (cases "getPayPalAccessToken w s")
  case (Pair res s1)
  show ?thesis
  proof (cases res)
    case (Inl e)
    with Pair assms show ?thesis by (simp add: createPayPalOrder_def)
  next
    case (Inr accessToken)
    with Pair have s1: "s1 = s\<lparr>calls := calls s @ [token_request w]\<rparr>"
      using getPayPalAccessToken_Inr by blast
    from assms Pair Inr s1 show ?thesis
      by (auto simp: createPayPalOrder_def fetch_def
            split: fetch_result.splits sum.splits if_splits)
  qed
qed

lemma createPayPalOrder_Inl:
  assumes "createPayPalOrder w amount description requiresShipping s = (Inl e, s2)"
  shows "s2 = s \<or> s2 = s\<lparr>calls := calls s @ [token_request w]\<rparr> \<or>
         (\<exists>accessToken.
            s2 = s\<lparr>calls := calls s @ [token_request w,
                      order_request accessToken amount description requiresShipping]\<rparr>)"
proof (cases "getPayPalAccessToken w s")
  case (Pair res s1)
  show ?thesis
  proof (cases res)
    case (Inl e')
    with Pair assms getPayPalAccessToken_Inl[of w s e' s1] show ?thesis
      by (auto simp: createPayPalOrder_def)
  next
    case (Inr accessToken)
    with Pair have s1: "s1 = s\<lparr>calls := calls s @ [token_request w]\<rparr>"
      using getPayPalAccessToken_Inr by blast
    from assms Pair Inr s1 show ?thesis
      by (auto simp: createPayPalOrder_def fetch_def
            split: fetch_result.splits sum.splits if_splits)
  qed
qed

text \<open>Every way \<open>POST\<close> can end.\<close>

lemma POST_cases:
  obtains
    (unreadable) e where "request_json w rq = Inl e" "POST w rq s = POST_catch e s"
  | (null) "request_json w rq = Inr JNull"
      "POST w rq s = POST_catch (TypeError (null_destructure_message w)) s"
  | (invalid) v where "request_json w rq = Inr v" "v \<noteq> JNull"
      "\<not> truthy (own_property v ''amount'') \<or> \<not> truthy (own_property v ''description'')"
      "POST w rq s =
         (NextResponse_json
            (JObj [(''error'', JStr ''Missing amount or description in request body'')]) 400, s)"
  | (failed) v e s1 where "request_json w rq = Inr v"
      "truthy (own_property v ''amount'')" "truthy (own_property v ''description'')"
      "createPayPalOrder w (own_property v ''amount'') (own_property v ''description'')
         (truthy (own_property v ''requiresShipping'')) s = (Inl e, s1)"
      "POST w rq s = POST_catch e s1"
  | (created) v order s1 where "request_json w rq = Inr v"
      "truthy (own_property v ''amount'')" "truthy (own_property v ''description'')"
      "createPayPalOrder w (own_property v ''amount'') (own_property v ''description'')
         (truthy (own_property v ''requiresShipping'')) s = (Inr order, s1)"
      "POST w rq s = (NextResponse_json order 200, s1)"
proof (cases "request_json w rq")
  case (Inl e)
  then show ?thesis using unreadable by (simp add: POST_def)
next
  case (Inr v)
  show ?thesis
  proof (cases "v = JNull")
    case True
    with Inr show ?thesis using null by (simp add: POST_def destructure_def)
  next
    case False
    show ?thesis
    proof (cases "truthy (own_property v ''amount'') \<and> truthy (own_property v ''description'')")
      case False
      with Inr \<open>v \<noteq> JNull\<close> show ?thesis using invalid[of v]
        by (auto simp: POST_def destructure_def)
    next
      case True
      obtain res s1 where c: "createPayPalOrder w (own_property v ''amount'')
          (own_property v ''description'') (truthy (own_property v ''requiresShipping'')) s
          = (res, s1)"
        by (cases "createPayPalOrder w (own_property v ''amount'')
          (own_property v ''description'') (truthy (own_property v ''requiresShipping'')) s")
      show ?thesis
      proof (cases res)
        case (Inl e)
        with Inr True \<open>v \<noteq> JNull\<close> c show ?thesis using failed[of v e s1]
          by (simp add: POST_def destructure_def)
      next
        case (Inr order)
        with \<open>request_json w rq = Inr v\<close> True \<open>v \<noteq> JNull\<close> c show ?thesis
          using created[of v order s1] by (simp add: POST_def destructure_def)
      qed
    qed
  qed
qed

lemma POST_catch_simps [simp]:
  "status (fst (POST_catch e s)) = 500"
  "response_body (fst (POST_catch e s)) =
     JObj [(''error'', JStr (if instanceof_Error e then message e
                              else ''An unknown error occurred''))]"
  "calls (snd (POST_catch e s)) = calls s"
  "console (snd (POST_catch e s)) =
     console s @ [(ERROR, [LogStr ''Failed to create PayPal order:'', LogErr e])]"
  by (simp_all add: POST_catch_def console_error_def NextResponse_json_def)

lemma url_token_request: "url (token_request w) = base @ ''/v1/oauth2/token''"
  by (simp add: token_request_def Let_def)

lemma shipping_preference_order_request:
  "shipping_preference_sent (order_request accessToken amount description requiresShipping) =
     Some (JStr (if requiresShipping then ''GET_FROM_FILE'' else ''NO_SHIPPING''))"
  by (simp add: shipping_preference_sent_def order_request_def order_body_def)

text \<open>The calls one invocation issues.\<close>

lemma POST_new_calls:
  assumes "request_json w rq = Inr v"
  shows "new_calls s (snd (POST w rq s)) = [] \<or>
         new_calls s (snd (POST w rq s)) = [token_request w] \<or>
         (\<exists>accessToken. new_calls s (snd (POST w rq s)) =
            [token_request w,
             order_request accessToken (own_property v ''amount'')
               (own_property v ''description'') (truthy (own_property v ''requiresShipping''))])"
proof (cases w rq s rule: POST_cases)
  case (failed v' e s1)
  with assms createPayPalOrder_Inl[OF failed(4)] show ?thesis
    by (auto simp: new_calls_def)
next
  case (created v' order s1)
  with assms createPayPalOrder_Inr[OF created(4)] show ?thesis
    by (auto simp: new_calls_def)
qed (use assms in \<open>auto simp: NextResponse_json_def\<close>)


section \<open>Validation\<close>

text \<open>
  C1, as it fails: a body that parses to \<open>null\<close> lacks \<open>amount\<close> and \<open>description\<close>, yet
  the handler answers it with status 500, since destructuring \<open>null\<close> throws.
\<close>

theorem POST_null_body:
  "request_json scenario_world null_request = Inr JNull \<and>
   own_property JNull ''amount'' = None \<and> own_property JNull ''description'' = None \<and>
   fst (POST scenario_world null_request no_effects) =
     \<lparr> status = 500, response_body = JObj [(''error'', JStr ''Cannot destructure null'')] \<rparr>"
  by (simp add: route_defs scenario_defs null_request_def)

text \<open>
  C1, amended. A request whose parsed JSON body is not \<open>null\<close> and lacks \<open>amount\<close> or lacks
  \<open>description\<close> is answered with status 400 and the body
  \<open>{ error: "Missing amount or description in request body" }\<close>; the effects are returned
  untouched, so no order creation was attempted and no outbound call was made. A body that
  parses to \<open>null\<close> is answered with status 500 and the message of the TypeError, after a
  line on the console and again without any outbound call.
\<close>

theorem POST_missing_field:
  assumes "request_json w rq = Inr v"
    and "own_property v ''amount'' = None \<or> own_property v ''description'' = None"
  shows "POST w rq s =
           (if v = JNull then
              (\<lparr> status = 500,
                 response_body = JObj [(''error'', JStr (null_destructure_message w))] \<rparr>,
               s\<lparr> console := console s @
                    [(ERROR, [LogStr ''Failed to create PayPal order:'',
                              LogErr (TypeError (null_destructure_message w))])] \<rparr>)
            else
              (\<lparr> status = 400,
                 response_body =
                   JObj [(''error'', JStr ''Missing amount or description in request body'')] \<rparr>,
               s))"
  using assms by (auto simp: route_defs)

theorem POST_missing_field_witness:
  "POST scenario_world missing_amount_request no_effects =
     (\<lparr> status = 400,
        response_body =
          JObj [(''error'', JStr ''Missing amount or description in request body'')] \<rparr>,
      no_effects) \<and>
   status (fst (POST scenario_world null_request no_effects)) = 500 \<and>
   calls (snd (POST scenario_world null_request no_effects)) = []"
  using POST_missing_field
    [of scenario_world missing_amount_request "JObj [(''description'', JStr ''prints'')]"
        no_effects]
    POST_missing_field [of scenario_world null_request JNull no_effects]
  by (simp add: scenario_defs missing_amount_request_def null_request_def)

section \<open>Success\<close>

text \<open>
  C2, as it fails: the processor's order holds a number too large for a double; it is
  parsed as an infinity and written back to the caller as \<open>null\<close>, so the body is not the
  order verbatim.
\<close>

theorem POST_overflow_not_verbatim:
  "response_json (replying_world overflow_order_text)
     \<lparr> ok = True, text_of = Inr overflow_order_text \<rparr> =
     Inr (JObj [(''id'', JStr ''ORDER123''), (''weight'', JNum PlusInfinity)]) \<and>
   fst (POST (replying_world overflow_order_text) scenario_request no_effects) =
     \<lparr> status = 200,
       response_body = JObj [(''id'', JStr ''ORDER123''), (''weight'', JNull)] \<rparr>"
  by (simp add: route_defs scenario_defs)

text \<open>
  C2, amended. For a request with truthy amount and description, configured credentials, a
  token exchange that succeeds with a token that can be written into the \<open>Authorization\<close>
  header, and an order-creation call that succeeds with the parsed order \<open>order\<close>, the
  handler answers with status 200 and the body \<open>JSON.stringify\<close> writes for \<open>order\<close>. That
  body is \<open>order\<close> itself whenever \<open>order\<close> holds no number that was parsed as an infinity.
\<close>

theorem POST_success_passthrough:
  assumes "request_json w rq = Inr v"
    and "truthy (own_property v ''amount'')" and "truthy (own_property v ''description'')"
    and "truthy_env (PAYPAL_CLIENT_ID w)" and "truthy_env (PAYPAL_CLIENT_SECRET w)"
    and "net w (calls s) (token_request w) = Resolves r1" and "ok r1"
    and "response_json w r1 = Inr data" and "data \<noteq> JNull"
    and "interpolate w (own_property data ''access_token'') = Inr bearer"
    and "net w (calls s @ [token_request w])
           (order_request (own_property data ''access_token'')
              (own_property v ''amount'') (own_property v ''description'')
              (truthy (own_property v ''requiresShipping''))) = Resolves r2"
    and "ok r2" and "response_json w r2 = Inr order"
  shows "fst (POST w rq s) = \<lparr> status = 200, response_body = serialised order \<rparr> \<and>
         (plain order \<longrightarrow> fst (POST w rq s) = \<lparr> status = 200, response_body = order \<rparr>)"
  using assms truthy_not_null[of v "''amount''"]
  by (simp add: route_defs serialised_plain)

theorem POST_success_passthrough_witness:
  "fst (POST scenario_world scenario_request no_effects) =
     \<lparr> status = 200,
       response_body = JObj [(''id'', JStr ''ORDER123''), (''status'', JStr ''CREATED'')] \<rparr>"
  using POST_success_passthrough
    [of scenario_world scenario_request
        "JObj [(''amount'', JStr ''10.00''), (''description'', JStr ''4x6 prints''),
               (''requiresShipping'', JBool False)]"
        no_effects
        "\<lparr> ok = True, text_of = Inr scenario_token_text \<rparr>"
        "JObj [(''access_token'', JStr ''A21AAF''), (''token_type'', JStr ''Bearer'')]"
        "''A21AAF''"
        "\<lparr> ok = True, text_of = Inr scenario_order_text \<rparr>"
        "JObj [(''id'', JStr ''ORDER123''), (''status'', JStr ''CREATED'')]"]
  by (simp add: scenario_defs)

text \<open>
  When the token cannot be written into the header, the template literal throws before
  the order call is made: one outbound call, status 500.
\<close>

lemma POST_unwritable_token:
  "POST unwritable_token_world scenario_request no_effects =
     (\<lparr> status = 500,
        response_body =
          JObj [(''error'', JStr ''Cannot convert object to primitive value'')] \<rparr>,
      \<lparr> calls = [token_request unwritable_token_world],
        console =
          [(ERROR, [LogStr ''Failed to create PayPal order:'',
                    LogErr (TypeError ''Cannot convert object to primitive value'')])] \<rparr>)"
  by (simp add: route_defs scenario_defs unwritable_token_world_def)

section \<open>Shipping\<close>

text \<open>
  C4. Whenever the handler issues the order-creation call, the shipping preference in its
  body is \<open>GET_FROM_FILE\<close> when \<open>requiresShipping\<close> is \<open>true\<close>, and \<open>NO_SHIPPING\<close> when it
  is \<open>false\<close> or absent from the request body.
\<close>

theorem POST_shipping_preference:
  assumes "request_json w rq = Inr v"
    and "own_property v ''requiresShipping'' = None \<or>
         (\<exists>b. own_property v ''requiresShipping'' = Some (JBool b))"
  shows "\<forall>c \<in> set (new_calls s (snd (POST w rq s))).
           url c = base @ ''/v2/checkout/orders'' \<longrightarrow>
           shipping_preference_sent c =
             Some (JStr (if own_property v ''requiresShipping'' = Some (JBool True)
                         then ''GET_FROM_FILE'' else ''NO_SHIPPING''))"
proof (intro ballI impI)
  fix c
  assume c: "c \<in> set (new_calls s (snd (POST w rq s)))"
    and u: "url c = base @ ''/v2/checkout/orders''"
  have "url (token_request w) \<noteq> base @ ''/v2/checkout/orders''"
    by (simp add: url_token_request)
  with c u POST_new_calls[OF assms(1), of s] obtain accessToken where
    "c = order_request accessToken (own_property v ''amount'')
           (own_property v ''description'') (truthy (own_property v ''requiresShipping''))"
    by auto
  with assms(2) show "shipping_preference_sent c =
      Some (JStr (if own_property v ''requiresShipping'' = Some (JBool True)
                  then ''GET_FROM_FILE'' else ''NO_SHIPPING''))"
    by (auto simp: shipping_preference_order_request)
qed

theorem POST_shipping_preference_witness:
  "new_calls no_effects (snd (POST scenario_world string_zero_request no_effects)) =
     [token_request scenario_world,
      order_request (Some (JStr ''A21AAF'')) (Some (JStr ''0'')) (Some (JStr ''prints'')) True] \<and>
   shipping_preference_sent
     (order_request (Some (JStr ''A21AAF'')) (Some (JStr ''0'')) (Some (JStr ''prints'')) True) =
     Some (JStr ''GET_FROM_FILE'') \<and>
   new_calls no_effects (snd (POST scenario_world scenario_request no_effects)) =
     [token_request scenario_world,
      order_request (Some (JStr ''A21AAF'')) (Some (JStr ''10.00''))
        (Some (JStr ''4x6 prints'')) False] \<and>
   shipping_preference_sent
     (order_request (Some (JStr ''A21AAF'')) (Some (JStr ''10.00''))
        (Some (JStr ''4x6 prints'')) False) =
     Some (JStr ''NO_SHIPPING'')"
proof -
  have run1: "new_calls no_effects (snd (POST scenario_world string_zero_request no_effects)) =
     [token_request scenario_world,
      order_request (Some (JStr ''A21AAF'')) (Some (JStr ''0'')) (Some (JStr ''prints'')) True]"
    by (simp add: route_defs scenario_defs new_calls_def)
  have run2: "new_calls no_effects (snd (POST scenario_world scenario_request no_effects)) =
     [token_request scenario_world,
      order_request (Some (JStr ''A21AAF'')) (Some (JStr ''10.00''))
        (Some (JStr ''4x6 prints'')) False]"
    by (simp add: route_defs scenario_defs new_calls_def)
  have p1: "request_json scenario_world string_zero_request =
      Inr (JObj [(''amount'', JStr ''0''), (''description'', JStr ''prints''),
                 (''requiresShipping'', JBool True)])"
    by (simp add: scenario_defs)
  have p2: "request_json scenario_world scenario_request =
      Inr (JObj [(''amount'', JStr ''10.00''), (''description'', JStr ''4x6 prints''),
                 (''requiresShipping'', JBool False)])"
    by (simp add: scenario_defs)
  have q1: "own_property (JObj [(''amount'', JStr ''0''), (''description'', JStr ''prints''),
                 (''requiresShipping'', JBool True)]) ''requiresShipping'' = None \<or>
      (\<exists>b. own_property (JObj [(''amount'', JStr ''0''), (''description'', JStr ''prints''),
                 (''requiresShipping'', JBool True)]) ''requiresShipping'' = Some (JBool b))"
    by auto
  have q2: "own_property (JObj [(''amount'', JStr ''10.00''),
                 (''description'', JStr ''4x6 prints''),
                 (''requiresShipping'', JBool False)]) ''requiresShipping'' = None \<or>
      (\<exists>b. own_property (JObj [(''amount'', JStr ''10.00''),
                 (''description'', JStr ''4x6 prints''),
                 (''requiresShipping'', JBool False)]) ''requiresShipping'' = Some (JBool b))"
    by auto
  from POST_shipping_preference[OF p1 q1, of no_effects] run1
  have "shipping_preference_sent
     (order_request (Some (JStr ''A21AAF'')) (Some (JStr ''0'')) (Some (JStr ''prints'')) True) =
     Some (JStr ''GET_FROM_FILE'')"
    by (simp add: order_request_def)
  moreover from POST_shipping_preference[OF p2 q2, of no_effects] run2
  have "shipping_preference_sent
     (order_request (Some (JStr ''A21AAF'')) (Some (JStr ''10.00''))
        (Some (JStr ''4x6 prints'')) False) =
     Some (JStr ''NO_SHIPPING'')"
    by (simp add: order_request_def)
  ultimately show ?thesis using run1 run2 by simp
qed

section \<open>Failures before the order is created\<close>

text \<open>
  C5. When the token endpoint answers with a status that is not a success, the only
  outbound call of the invocation is the token call: the order-creation call is never
  issued, and the caller receives status 500 with an error body.
\<close>

theorem POST_token_refused:
  assumes "request_json w rq = Inr v"
    and "truthy (own_property v ''amount'')" and "truthy (own_property v ''description'')"
    and "truthy_env (PAYPAL_CLIENT_ID w)" and "truthy_env (PAYPAL_CLIENT_SECRET w)"
    and "net w (calls s) (token_request w) = Resolves r" and "\<not> ok r"
  shows "new_calls s (snd (POST w rq s)) = [token_request w] \<and>
         status (fst (POST w rq s)) = 500 \<and>
         (\<exists>m. response_body (fst (POST w rq s)) = JObj [(''error'', JStr m)])"
  using assms truthy_not_null[of v "''amount''"]
  by (auto simp: route_defs split: sum.splits)

theorem POST_token_refused_witness:
  "new_calls no_effects
     (snd (POST (refusing_world invalid_client_text) scenario_request no_effects)) =
     [token_request (refusing_world invalid_client_text)] \<and>
   status (fst (POST (refusing_world invalid_client_text) scenario_request no_effects)) = 500"
  using POST_token_refused
    [of "refusing_world invalid_client_text" scenario_request
        "JObj [(''amount'', JStr ''10.00''), (''description'', JStr ''4x6 prints''),
               (''requiresShipping'', JBool False)]"
        no_effects "\<lparr> ok = False, text_of = Inr invalid_client_text \<rparr>"]
  by (simp add: scenario_defs)

text \<open>
  C6. For a valid request, when the client identifier or the client secret is not
  configured, the handler issues no outbound call and answers with status 500 and the
  message \<open>MISSING_PAYPAL_API_CREDENTIALS\<close>.
\<close>

theorem POST_unconfigured:
  assumes "request_json w rq = Inr v"
    and "truthy (own_property v ''amount'')" and "truthy (own_property v ''description'')"
    and "\<not> truthy_env (PAYPAL_CLIENT_ID w) \<or> \<not> truthy_env (PAYPAL_CLIENT_SECRET w)"
  shows "calls (snd (POST w rq s)) = calls s \<and>
         fst (POST w rq s) =
           \<lparr> status = 500,
             response_body = JObj [(''error'', JStr ''MISSING_PAYPAL_API_CREDENTIALS'')] \<rparr>"
  using assms truthy_not_null[of v "''amount''"]
  by (auto simp: route_defs)

theorem POST_unconfigured_witness:
  "calls (snd (POST unconfigured_world scenario_request no_effects)) = [] \<and>
   fst (POST unconfigured_world scenario_request no_effects) =
     \<lparr> status = 500,
       response_body = JObj [(''error'', JStr ''MISSING_PAYPAL_API_CREDENTIALS'')] \<rparr>"
  using POST_unconfigured
    [of unconfigured_world scenario_request
        "JObj [(''amount'', JStr ''10.00''), (''description'', JStr ''4x6 prints''),
               (''requiresShipping'', JBool False)]"
        no_effects]
  by (simp add: scenario_defs unconfigured_world_def)

section \<open>What the caller sees of an upstream refusal\<close>

text \<open>
  C3, as it fails: the error body sent to the caller carries the upstream payload in full,
  so two refusals with different bodies give the caller different messages.
\<close>

theorem POST_leaks_upstream_body:
  "response_body (fst (POST (refusing_world invalid_client_text) scenario_request no_effects)) =
     JObj [(''error'', JStr (''Failed to get access token: '' @ invalid_client_text))] \<and>
   response_body (fst (POST (refusing_world ''Service Unavailable'') scenario_request no_effects)) =
     JObj [(''error'', JStr ''Failed to get access token: Service Unavailable'')] \<and>
   response_body (fst (POST (refusing_world invalid_client_text) scenario_request no_effects)) \<noteq>
   response_body (fst (POST (refusing_world ''Service Unavailable'') scenario_request no_effects))"
  by (simp add: route_defs scenario_defs)

text \<open>
  C3, amended. When the token endpoint refuses and its body reads \<open>errorData\<close>, the caller
  receives status 500 with the message \<open>Failed to get access token: \<close> followed by
  \<open>errorData\<close> verbatim; the same error is written to the console, one call was made,
  and nothing else of the world (the credentials included) enters the answer.
\<close>

theorem POST_refusal_reaches_caller:
  assumes "request_json w rq = Inr v"
    and "truthy (own_property v ''amount'')" and "truthy (own_property v ''description'')"
    and "truthy_env (PAYPAL_CLIENT_ID w)" and "truthy_env (PAYPAL_CLIENT_SECRET w)"
    and "net w (calls s) (token_request w) = Resolves r" and "\<not> ok r"
    and "text_of r = Inr errorData"
  shows "POST w rq s =
           (\<lparr> status = 500,
              response_body =
                JObj [(''error'', JStr (''Failed to get access token: '' @ errorData))] \<rparr>,
            s\<lparr> calls := calls s @ [token_request w],
               console := console s @
                 [(ERROR, [LogStr ''Failed to create PayPal order:'',
                           LogErr (Error (''Failed to get access token: '' @ errorData))])] \<rparr>)"
  using assms truthy_not_null[of v "''amount''"]
  by (auto simp: route_defs)

theorem POST_refusal_reaches_caller_witness:
  "fst (POST (refusing_world invalid_client_text) scenario_request no_effects) =
     \<lparr> status = 500,
       response_body =
         JObj [(''error'', JStr (''Failed to get access token: '' @ invalid_client_text))] \<rparr>"
  using POST_refusal_reaches_caller
    [of "refusing_world invalid_client_text" scenario_request
        "JObj [(''amount'', JStr ''10.00''), (''description'', JStr ''4x6 prints''),
               (''requiresShipping'', JBool False)]"
        no_effects "\<lparr> ok = False, text_of = Inr invalid_client_text \<rparr>" invalid_client_text]
  by (simp add: scenario_defs)

subsection \<open>The same refusal in the copy of \<open>src/unnamed/part_000\<close>\<close>

lemma token_error_try_part000_effects:
  "calls (token_error_try_part000 w errorBody s) = calls s \<and>
   set (console s) \<subseteq> set (console (token_error_try_part000 w errorBody s))"
  by (auto simp: token_error_try_part000_def console_error_def split: sum.splits)

lemma getPayPalAccessToken_part000_refused:
  assumes "truthy_env (PAYPAL_CLIENT_ID w)" and "truthy_env (PAYPAL_CLIENT_SECRET w)"
    and "net w (calls s) (token_request_part000 w) = Resolves r" and "\<not> ok r"
    and "text_of r = Inr errorData"
  shows "fst (getPayPalAccessToken_part000 w s) =
           Inl (Error ''Failed to get access token from PayPal. Check server logs for details.'')"
    and "calls (snd (getPayPalAccessToken_part000 w s)) = calls s @ [token_request_part000 w]"
    and "(ERROR, [LogStr ''PayPal API Error Response:'', LogStr errorData])
           \<in> set (console (snd (getPayPalAccessToken_part000 w s)))"
  using assms
    token_error_try_part000_effects[of w errorData
      "console_error [LogStr ''PayPal API Error Response:'', LogStr errorData]
         (console_log
            [LogStr (''Attempting PayPal auth with Client ID ending in ...'' @
                     slice_last4 (interpolate_env (PAYPAL_CLIENT_ID w)))] s
          \<lparr>calls := calls s @ [token_request_part000 w]\<rparr>)"]
  by (auto simp: getPayPalAccessToken_part000_def fetch_def console_log_def console_error_def
        Let_def)

text \<open>
  In the copy of \<open>src/unnamed/part_000\<close> the caller of a refused token exchange always
  reads the same fixed message, also when the processor names \<open>invalid_client\<close>; what the
  processor said goes to the console only.
\<close>

lemma POST_part000_fixed_message:
  assumes "request_json w rq = Inr v"
    and "truthy (own_property v ''amount'')" and "truthy (own_property v ''description'')"
    and "truthy_env (PAYPAL_CLIENT_ID w)" and "truthy_env (PAYPAL_CLIENT_SECRET w)"
    and "net w (calls s) (token_request_part000 w) = Resolves r" and "\<not> ok r"
    and "text_of r = Inr errorData"
  shows "fst (POST_part000 w rq s) =
           \<lparr> status = 500,
             response_body =
               JObj [(''error'',
                      JStr ''Failed to get access token from PayPal. Check server logs for details.'')] \<rparr> \<and>
         (ERROR, [LogStr ''PayPal API Error Response:'', LogStr errorData])
           \<in> set (console (snd (POST_part000 w rq s)))"
proof -
  obtain res s1 where g: "getPayPalAccessToken_part000 w s = (res, s1)"
    by (cases "getPayPalAccessToken_part000 w s")
  with getPayPalAccessToken_part000_refused[OF assms(4-8)]
  have res: "res = Inl (Error
        ''Failed to get access token from PayPal. Check server logs for details.'')"
    and log: "(ERROR, [LogStr ''PayPal API Error Response:'', LogStr errorData])
           \<in> set (console s1)"
    by simp_all
  from assms(1-3) truthy_not_null[OF assms(2)] g res
  have "POST_part000 w rq s =
      (\<lparr> status = 500,
         response_body =
           JObj [(''error'',
                  JStr ''Failed to get access token from PayPal. Check server logs for details.'')] \<rparr>,
       s1)"
    by (simp add: POST_part000_def destructure_def createPayPalOrder_part000_def
          POST_catch_part000_def NextResponse_json_def)
  with log show ?thesis by simp
qed

lemma POST_part000_invalid_client:
  "fst (POST_part000 (refusing_world invalid_client_text) scenario_request no_effects) =
     \<lparr> status = 500,
       response_body =
         JObj [(''error'',
                JStr ''Failed to get access token from PayPal. Check server logs for details.'')] \<rparr>"
  by (simp add: POST_part000_def destructure_def createPayPalOrder_part000_def
        POST_catch_part000_def NextResponse_json_def getPayPalAccessToken_part000_def
        token_error_try_part000_def token_request_part000_def fetch_def console_log_def
        console_error_def get_property_def slice_last4_def scenario_defs)

section \<open>The response envelope\<close>

text \<open>
  C8, as it fails: the handler does not look at what the processor's successful reply
  holds. A reply of \<open>null\<close> gives status 200 with the body \<open>null\<close>, which is no JSON object.
\<close>

theorem POST_null_order:
  "fst (POST (replying_world ''null'') scenario_request no_effects) =
     \<lparr> status = 200, response_body = JNull \<rparr>"
  by (simp add: route_defs scenario_defs)

text \<open>
  C8, amended. Whatever the request and whatever happens, the response is one of three
  things: status 200 with, as \<open>JSON.stringify\<close> writes it, the value that the processor's
  successful reply to this invocation's order-creation call parsed to (a JSON object
  whenever that value is one); status 400 with the validation error; or status 500 with
  an object holding the single string field \<open>error\<close>.
\<close>

theorem POST_envelope:
  "(\<exists>v accessToken r order.
      request_json w rq = Inr v \<and>
      fst (getPayPalAccessToken w s) = Inr accessToken \<and>
      net w (calls s @ [token_request w])
        (order_request accessToken (own_property v ''amount'') (own_property v ''description'')
           (truthy (own_property v ''requiresShipping''))) = Resolves r \<and>
      ok r \<and> response_json w r = Inr order \<and>
      fst (POST w rq s) = \<lparr> status = 200, response_body = serialised order \<rparr> \<and>
      (is_object order \<longrightarrow> is_object (response_body (fst (POST w rq s))))) \<or>
   fst (POST w rq s) =
     \<lparr> status = 400,
       response_body =
         JObj [(''error'', JStr ''Missing amount or description in request body'')] \<rparr> \<or>
   (\<exists>m. fst (POST w rq s) = \<lparr> status = 500, response_body = JObj [(''error'', JStr m)] \<rparr>)"
proof (cases w rq s rule: POST_cases)
  case (created v order s1)
  from createPayPalOrder_Inr[OF created(4)] obtain accessToken r where
    "fst (getPayPalAccessToken w s) = Inr accessToken"
    "net w (calls s @ [token_request w])
       (order_request accessToken (own_property v ''amount'') (own_property v ''description'')
          (truthy (own_property v ''requiresShipping''))) = Resolves r"
    "ok r" "response_json w r = Inr order"
    by blast
  moreover from created(5)
  have "fst (POST w rq s) = \<lparr> status = 200, response_body = serialised order \<rparr>"
    by (simp add: NextResponse_json_def)
  moreover from this
  have "is_object order \<longrightarrow> is_object (response_body (fst (POST w rq s)))"
    by (simp add: serialised_object)
  ultimately show ?thesis using created(1) by blast
next
  case (invalid v)
  then show ?thesis by (simp add: NextResponse_json_def)
qed (simp_all add: POST_catch_def NextResponse_json_def Let_def)

theorem POST_envelope_witness:
  "fst (POST scenario_world null_request no_effects) =
     \<lparr> status = 500, response_body = JObj [(''error'', JStr ''Cannot destructure null'')] \<rparr> \<and>
   fst (POST scenario_world missing_amount_request no_effects) =
     \<lparr> status = 400,
       response_body =
         JObj [(''error'', JStr ''Missing amount or description in request body'')] \<rparr> \<and>
   fst (POST scenario_world scenario_request no_effects) =
     \<lparr> status = 200,
       response_body = JObj [(''id'', JStr ''ORDER123''), (''status'', JStr ''CREATED'')] \<rparr>"
  using POST_envelope[of scenario_world null_request no_effects]
    POST_envelope[of scenario_world missing_amount_request no_effects]
    POST_envelope[of scenario_world scenario_request no_effects]
  by (simp add: route_defs scenario_defs null_request_def missing_amount_request_def)

section \<open>Falsy fields\<close>

text \<open>
  C10. The validation answer is given exactly when \<open>amount\<close> or \<open>description\<close> is falsy:
  an absent field, the empty string, the number 0, \<open>null\<close> and \<open>false\<close> are all rejected,
  while any truthy value, such as the string \<open>"0"\<close> or a string that is no number, passes.
\<close>

theorem POST_rejects_falsy:
  assumes "request_json w rq = Inr v" and "v \<noteq> JNull"
  shows "((POST w rq s =
            (\<lparr> status = 400,
               response_body =
                 JObj [(''error'', JStr ''Missing amount or description in request body'')] \<rparr>,
             s)) =
          (\<not> truthy (own_property v ''amount'') \<or> \<not> truthy (own_property v ''description''))) \<and>
         (\<forall>x \<in> {None, Some (JStr []), Some (JNum (Finite 0)), Some JNull, Some (JBool False)}.
            \<not> truthy x) \<and>
         truthy (Some (JStr ''0'')) \<and> truthy (Some (JStr ''ten dollars''))"
  using assms
  by (auto simp: route_defs split: sum.splits fetch_result.splits)

theorem POST_rejects_falsy_witness:
  "POST scenario_world zero_amount_request no_effects =
     (\<lparr> status = 400,
        response_body =
          JObj [(''error'', JStr ''Missing amount or description in request body'')] \<rparr>,
      no_effects) \<and>
   POST scenario_world string_zero_request no_effects \<noteq>
     (\<lparr> status = 400,
        response_body =
          JObj [(''error'', JStr ''Missing amount or description in request body'')] \<rparr>,
      no_effects) \<and>
   status (fst (POST scenario_world string_zero_request no_effects)) = 200"
proof -
  have p0: "request_json scenario_world zero_amount_request =
      Inr (JObj [(''amount'', JNum (Finite 0)), (''description'', JStr ''prints'')])"
    by (simp add: scenario_defs zero_amount_request_def)
  have p1: "request_json scenario_world string_zero_request =
      Inr (JObj [(''amount'', JStr ''0''), (''description'', JStr ''prints''),
                 (''requiresShipping'', JBool True)])"
    by (simp add: scenario_defs zero_amount_request_def)
  have "status (fst (POST scenario_world string_zero_request no_effects)) = 200"
    by (simp add: route_defs scenario_defs zero_amount_request_def)
  with POST_rejects_falsy[OF p0, of no_effects] POST_rejects_falsy[OF p1, of no_effects]
  show ?thesis by simp
qed

section \<open>Every invocation authenticates afresh\<close>

lemma POST_200_calls:
  assumes "status (fst (POST w rq s)) = 200"
  shows "\<exists>r data amount description requiresShipping.
           net w (calls s) (token_request w) = Resolves r \<and> ok r \<and>
           response_json w r = Inr data \<and>
           snd (POST w rq s) =
             s\<lparr>calls := calls s @
                  [token_request w,
                   order_request (own_property data ''access_token'')
                     amount description requiresShipping]\<rparr>"
proof (cases w rq s rule: POST_cases)
  case (created v order s1)
  from createPayPalOrder_Inr[OF created(4)] obtain accessToken where
    s1: "s1 = s\<lparr>calls := calls s @ [token_request w,
            order_request accessToken (own_property v ''amount'')
              (own_property v ''description'') (truthy (own_property v ''requiresShipping''))]\<rparr>"
    and tok: "fst (getPayPalAccessToken w s) = Inr accessToken"
    by blast
  from tok getPayPalAccessToken_Inr[of w s accessToken "snd (getPayPalAccessToken w s)"]
  obtain r data where "net w (calls s) (token_request w) = Resolves r" "ok r"
    "response_json w r = Inr data" "accessToken = own_property data ''access_token''"
    by (metis prod.collapse)
  with s1 created(5) show ?thesis by auto
qed (use assms in \<open>auto simp: NextResponse_json_def\<close>)

lemma serve_extends: "\<exists>cs. calls (snd (serve w rqs s)) = calls s @ cs"
proof (induction rqs arbitrary: s)
  case Nil
  show ?case by simp
next
  case (Cons rq rqs)
  obtain cs1 where c1: "calls (snd (POST w rq s)) = calls s @ cs1"
    using POST_extends by blast
  obtain cs2 where "calls (snd (serve w rqs (snd (POST w rq s)))) =
      calls (snd (POST w rq s)) @ cs2"
    using Cons.IH by blast
  with c1 show ?case by (simp add: split_beta)
qed

text \<open>
  C9. A successful invocation makes exactly two outbound calls: the token call, then the
  order-creation call carrying the token that this very exchange returned. A run of
  successful invocations therefore alternates token and order calls; no token is kept
  from one invocation to the next.
\<close>

theorem serve_authenticates_afresh:
  "(status (fst (POST w rq s)) = 200 \<longrightarrow>
      (\<exists>r data amount description requiresShipping.
         net w (calls s) (token_request w) = Resolves r \<and> ok r \<and>
         response_json w r = Inr data \<and>
         new_calls s (snd (POST w rq s)) =
           [token_request w,
            order_request (own_property data ''access_token'')
              amount description requiresShipping])) \<and>
   ((\<forall>resp \<in> set (fst (serve w rqs s)). status resp = 200) \<longrightarrow>
      map url (new_calls s (snd (serve w rqs s))) =
        concat (replicate (length rqs)
                  [base @ ''/v1/oauth2/token'', base @ ''/v2/checkout/orders'']))"
proof (intro conjI impI)
  assume "status (fst (POST w rq s)) = 200"
  from POST_200_calls[OF this] obtain r data amount description requiresShipping where
    "net w (calls s) (token_request w) = Resolves r" "ok r" "response_json w r = Inr data"
    "snd (POST w rq s) =
       s\<lparr>calls := calls s @
            [token_request w,
             order_request (own_property data ''access_token'')
               amount description requiresShipping]\<rparr>"
    by blast
  then have "net w (calls s) (token_request w) = Resolves r \<and> ok r \<and>
         response_json w r = Inr data \<and>
         new_calls s (snd (POST w rq s)) =
           [token_request w,
            order_request (own_property data ''access_token'')
              amount description requiresShipping]"
    by (simp add: new_calls_def)
  then show
    "\<exists>r data amount description requiresShipping.
         net w (calls s) (token_request w) = Resolves r \<and> ok r \<and>
         response_json w r = Inr data \<and>
         new_calls s (snd (POST w rq s)) =
           [token_request w,
            order_request (own_property data ''access_token'')
              amount description requiresShipping]"
    by blast
next
  assume "\<forall>resp \<in> set (fst (serve w rqs s)). status resp = 200"
  then show "map url (new_calls s (snd (serve w rqs s))) =
        concat (replicate (length rqs)
                  [base @ ''/v1/oauth2/token'', base @ ''/v2/checkout/orders''])"
  proof (induction rqs arbitrary: s)
    case Nil
    show ?case by simp
  next
    case (Cons rq rqs)
    let ?s1 = "snd (POST w rq s)"
    from Cons.prems have ok1: "status (fst (POST w rq s)) = 200"
      and rest: "\<forall>resp \<in> set (fst (serve w rqs ?s1)). status resp = 200"
      by (simp_all add: split_beta)
    from POST_200_calls[OF ok1] obtain accessToken amount description requiresShipping where
      c1: "calls ?s1 = calls s @ [token_request w,
             order_request accessToken amount description requiresShipping]"
      by force
    obtain cs where c2: "calls (snd (serve w rqs ?s1)) = calls ?s1 @ cs"
      using serve_extends by blast
    from Cons.IH[OF rest] c2 have
      "map url cs = concat (replicate (length rqs)
                  [base @ ''/v1/oauth2/token'', base @ ''/v2/checkout/orders''])"
      by (simp add: new_calls_def)
    with c1 c2 show ?case
      by (simp add: split_beta new_calls_def url_token_request order_request_def)
  qed
qed

theorem serve_authenticates_afresh_witness:
  "map status (fst (serve scenario_world [scenario_request, string_zero_request] no_effects)) =
     [200, 200] \<and>
   new_calls no_effects
     (snd (serve scenario_world [scenario_request, string_zero_request] no_effects)) =
     [token_request scenario_world,
      order_request (Some (JStr ''A21AAF'')) (Some (JStr ''10.00''))
        (Some (JStr ''4x6 prints'')) False,
      token_request scenario_world,
      order_request (Some (JStr ''A21AAG'')) (Some (JStr ''0'')) (Some (JStr ''prints'')) True] \<and>
   map url (new_calls no_effects
     (snd (serve scenario_world [scenario_request, string_zero_request] no_effects))) =
     [''https://api-m.sandbox.paypal.com/v1/oauth2/token'',
      ''https://api-m.sandbox.paypal.com/v2/checkout/orders'',
      ''https://api-m.sandbox.paypal.com/v1/oauth2/token'',
      ''https://api-m.sandbox.paypal.com/v2/checkout/orders'']"
proof -
  have run: "serve scenario_world [scenario_request, string_zero_request] no_effects =
     ([\<lparr> status = 200,
          response_body = JObj [(''id'', JStr ''ORDER123''), (''status'', JStr ''CREATED'')] \<rparr>,
       \<lparr> status = 200,
          response_body = JObj [(''id'', JStr ''ORDER123''), (''status'', JStr ''CREATED'')] \<rparr>],
      \<lparr> calls =
          [token_request scenario_world,
           order_request (Some (JStr ''A21AAF'')) (Some (JStr ''10.00''))
             (Some (JStr ''4x6 prints'')) False,
           token_request scenario_world,
           order_request (Some (JStr ''A21AAG'')) (Some (JStr ''0''))
             (Some (JStr ''prints'')) True],
        console = [] \<rparr>)"
    by (simp add: route_defs scenario_defs)
  from serve_authenticates_afresh
    [of scenario_world scenario_request no_effects
        "[scenario_request, string_zero_request]"] run
  show ?thesis
    by (simp add: new_calls_def no_effects_def base_def)
qed

section \<open>The base URL\<close>

lemma token_error_try_calls: "calls (snd (token_error_try w errorBody s)) = calls s"
  by (simp add: token_error_try_def console_error_def split: sum.splits)

lemma getPayPalAccessToken_mode_calls:
  "calls (snd (getPayPalAccessToken_mode w s)) = calls s \<or>
   calls (snd (getPayPalAccessToken_mode w s)) = calls s @ [token_request_mode w]"
  using token_error_try_calls[of w]
  by (auto simp: getPayPalAccessToken_mode_def fetch_def console_error_def console_log_def
        Let_def split_beta
      split: fetch_result.splits sum.splits)

lemma getPayPalAccessToken_mode_Inr:
  assumes "fst (getPayPalAccessToken_mode w s) = Inr accessToken"
  shows "calls (snd (getPayPalAccessToken_mode w s)) = calls s @ [token_request_mode w]"
  using assms
  by (auto simp: getPayPalAccessToken_mode_def fetch_def console_error_def console_log_def
        Let_def split_beta
      split: fetch_result.splits sum.splits if_splits)

lemma createPayPalOrder_mode_calls:
  "map url (new_calls s (snd (createPayPalOrder_mode w amount description requiresShipping s))) \<in>
     {[], [base_mode w @ ''/v1/oauth2/token''],
      [base_mode w @ ''/v1/oauth2/token'', base_mode w @ ''/v2/checkout/orders'']}"
proof (cases "fst (getPayPalAccessToken_mode w s)")
  case (Inl e)
  with getPayPalAccessToken_mode_calls[of w s] show ?thesis
    by (auto simp: createPayPalOrder_mode_def split_beta new_calls_def token_request_mode_def
          Let_def)
next
  case (Inr accessToken)
  with getPayPalAccessToken_mode_Inr[OF Inr] show ?thesis
    by (auto simp: createPayPalOrder_mode_def split_beta fetch_def console_error_def
          console_log_def Let_def new_calls_def token_request_mode_def order_request_mode_def
        split: fetch_result.splits sum.splits)
qed

lemma POST_catch_mode_calls [simp]: "calls (snd (POST_catch_mode e s)) = calls s"
  by (simp add: POST_catch_mode_def console_error_def Let_def)

lemma POST_mode_calls:
  "map url (new_calls s (snd (POST_mode w rq s))) \<in>
     {[], [base_mode w @ ''/v1/oauth2/token''],
      [base_mode w @ ''/v1/oauth2/token'', base_mode w @ ''/v2/checkout/orders'']}"
proof (cases "request_json w rq")
  case (Inl e)
  then show ?thesis by (simp add: POST_mode_def new_calls_def)
next
  case (Inr v)
  show ?thesis
  proof (cases "destructure w v")
    case (Inl e)
    with Inr show ?thesis by (simp add: POST_mode_def new_calls_def)
  next
    case (Inr fields)
    obtain amount description requiresShipping where
      f: "fields = (amount, description, requiresShipping)"
      by (cases fields)
    show ?thesis
    proof (cases "\<not> truthy amount \<or> \<not> truthy description")
      case True
      with \<open>request_json w rq = Inr v\<close> Inr f
      have "snd (POST_mode w rq s) = s"
        by (simp add: POST_mode_def)
      then show ?thesis by simp
    next
      case False
      obtain res s1 where
        c: "createPayPalOrder_mode w amount description (truthy requiresShipping) s = (res, s1)"
        by (cases "createPayPalOrder_mode w amount description (truthy requiresShipping) s")
      have "POST_mode w rq s =
          (case res of Inl e \<Rightarrow> POST_catch_mode e s1
           | Inr order \<Rightarrow> (NextResponse_json order 200, s1))"
        using False \<open>request_json w rq = Inr v\<close> Inr f c
        by (simp add: POST_mode_def split: sum.splits)
      then have "calls (snd (POST_mode w rq s)) =
          calls (snd (createPayPalOrder_mode w amount description (truthy requiresShipping) s))"
        using c by (cases res) simp_all
      then have "new_calls s (snd (POST_mode w rq s)) =
          new_calls s (snd (createPayPalOrder_mode w amount description
                              (truthy requiresShipping) s))"
        by (simp add: new_calls_def)
      with createPayPalOrder_mode_calls[of s w amount description "truthy requiresShipping"]
      show ?thesis by simp
    qed
  qed
qed

lemma POST_calls:
  "map url (new_calls s (snd (POST w rq s))) \<in>
     {[], [base @ ''/v1/oauth2/token''],
      [base @ ''/v1/oauth2/token'', base @ ''/v2/checkout/orders'']}"
proof (cases w rq s rule: POST_cases)
  case (failed v e s1)
  with createPayPalOrder_Inl[OF failed(4)] show ?thesis
    by (auto simp: new_calls_def url_token_request order_request_def)
next
  case (created v order s1)
  with createPayPalOrder_Inr[OF created(4)] show ?thesis
    by (auto simp: new_calls_def url_token_request order_request_def)
qed (auto simp: NextResponse_json_def)

lemmas mode_defs =
  POST_mode_def POST_catch_mode_def createPayPalOrder_mode_def getPayPalAccessToken_mode_def
  token_request_mode_def order_request_mode_def base_mode_def PAYPAL_CLIENT_ID_mode_def
  PAYPAL_CLIENT_SECRET_mode_def token_error_try_def order_error_try_def slice_last4_def
  env_or_def console_log_def js_or_def

text \<open>
  C7, as it fails on \<open>route.ts\<close>: with the operating mode set to live, both calls of the
  route still go to the sandbox endpoint.
\<close>

theorem POST_ignores_mode:
  "process_env live_world ''PAYPAL_MODE'' = Some ''live'' \<and>
   map url (calls (snd (POST live_world scenario_request no_effects))) =
     [''https://api-m.sandbox.paypal.com/v1/oauth2/token'',
      ''https://api-m.sandbox.paypal.com/v2/checkout/orders'']"
  by (simp add: route_defs scenario_defs live_world_def)

text \<open>
  C7, amended. The calls of \<open>route.ts\<close> go to the sandbox endpoint whatever the environment
  says: first the token endpoint, then the order endpoint. The copy of the route with an
  operating mode sends both calls to one base URL, which is the production endpoint when
  \<open>PAYPAL_MODE\<close> is exactly \<open>live\<close> and the sandbox endpoint otherwise.
\<close>

theorem base_url_of_calls:
  "map url (new_calls s (snd (POST w rq s))) \<in>
     {[], [''https://api-m.sandbox.paypal.com/v1/oauth2/token''],
      [''https://api-m.sandbox.paypal.com/v1/oauth2/token'',
       ''https://api-m.sandbox.paypal.com/v2/checkout/orders'']} \<and>
   map url (new_calls s (snd (POST_mode w rq s))) \<in>
     {[], [base_mode w @ ''/v1/oauth2/token''],
      [base_mode w @ ''/v1/oauth2/token'', base_mode w @ ''/v2/checkout/orders'']} \<and>
   base_mode w =
     (if process_env w ''PAYPAL_MODE'' = Some ''live''
      then ''https://api-m.paypal.com'' else ''https://api-m.sandbox.paypal.com'')"
proof (intro conjI)
  from POST_calls[of s w rq] show
    "map url (new_calls s (snd (POST w rq s))) \<in>
     {[], [''https://api-m.sandbox.paypal.com/v1/oauth2/token''],
      [''https://api-m.sandbox.paypal.com/v1/oauth2/token'',
       ''https://api-m.sandbox.paypal.com/v2/checkout/orders'']}"
    by (simp add: base_def)
  from POST_mode_calls[of s w rq] show
    "map url (new_calls s (snd (POST_mode w rq s))) \<in>
     {[], [base_mode w @ ''/v1/oauth2/token''],
      [base_mode w @ ''/v1/oauth2/token'', base_mode w @ ''/v2/checkout/orders'']}"
    by simp
  show "base_mode w =
     (if process_env w ''PAYPAL_MODE'' = Some ''live''
      then ''https://api-m.paypal.com'' else ''https://api-m.sandbox.paypal.com'')"
    by (simp add: base_mode_def)
qed

theorem base_url_of_calls_witness:
  "map url (new_calls no_effects (snd (POST_mode live_world scenario_request no_effects))) =
     [''https://api-m.paypal.com/v1/oauth2/token'',
      ''https://api-m.paypal.com/v2/checkout/orders''] \<and>
   map url (new_calls no_effects (snd (POST_mode scenario_world scenario_request no_effects))) =
     [''https://api-m.sandbox.paypal.com/v1/oauth2/token'',
      ''https://api-m.sandbox.paypal.com/v2/checkout/orders''] \<and>
   base_mode live_world = ''https://api-m.paypal.com'' \<and>
   base_mode scenario_world = ''https://api-m.sandbox.paypal.com''"
  using base_url_of_calls[of no_effects live_world scenario_request]
    base_url_of_calls[of no_effects scenario_world scenario_request]
  by (simp add: route_defs mode_defs scenario_defs live_world_def new_calls_def)

end
